theory Spec2Isabelle
  imports Main "HOL-Library.Sublist"
begin

section \<open>Revisions, environment and JavaScript values\<close>

text \<open>
  The repository holds five drafts of one bootstrap module. They are kept apart by a tag,
  in the order in which they stand in the source:
  \<^item> \<open>Srv1\<close>: \<^verbatim>\<open>src/server.js\<close> lines 1-141 (serverless, \<^verbatim>\<open>isConnected\<close> flag);
  \<^item> \<open>Srv2\<close>: \<^verbatim>\<open>src/server.js\<close> lines 142-357 (\<^verbatim>\<open>UPLOAD_DIR\<close> override, per-directory guard);
  \<^item> \<open>Srv3\<close>: \<^verbatim>\<open>src/server.js\<close> lines 358-560 (\<^verbatim>\<open>isProduction\<close>, \<^verbatim>\<open>createDirectories\<close>);
  \<^item> \<open>Part1\<close>: \<^verbatim>\<open>src/unnamed/part_000\<close> lines 1-166 (serverless, \<^verbatim>\<open>readyState\<close> guard);
  \<^item> \<open>Part2\<close>: \<^verbatim>\<open>src/unnamed/part_000\<close> lines 167-377 (\<^verbatim>\<open>isProduction\<close>, root route).
\<close>

datatype revision = Srv1 | Srv2 | Srv3 | Part1 | Part2

text \<open>\<^verbatim>\<open>process.env\<close>: a variable is a string or \<^verbatim>\<open>undefined\<close>.\<close>

type_synonym env = "string \<Rightarrow> string option"

text \<open>JavaScript truthiness of a string-or-undefined value: only \<^verbatim>\<open>undefined\<close> and \<^verbatim>\<open>''\<close> are falsy.\<close>

definition truthy :: "string option \<Rightarrow> bool" where
  "truthy v = (case v of None \<Rightarrow> False | Some s \<Rightarrow> s \<noteq> [])"

text \<open>An error object as the code reads it: an optional numeric \<^verbatim>\<open>status\<close> and a \<^verbatim>\<open>message\<close>.\<close>

record js_error =
  err_status :: "int option"
  err_message :: "string option"

datatype json =
    JBool bool
  | JStr string
  | JArr "json list"
  | JObj "(string \<times> json) list"

record response =
  res_status :: int
  res_body :: json

section \<open>Connection acquisition\<close>

text \<open>
  The process-wide state of the connection code: the module variable \<^verbatim>\<open>isConnected\<close> of
  \<open>Srv1\<close>, and the arguments of the calls of \<^verbatim>\<open>mongoose.connect\<close> made so far (one entry
  for each connection-establishment attempt; \<open>None\<close> is \<^verbatim>\<open>undefined\<close>).
\<close>

record proc =
  isConnected :: bool
  connect_calls :: "string option list"

definition fresh :: proc where
  "fresh = \<lparr>isConnected = False, connect_calls = []\<rparr>"

text \<open>
  An \<^verbatim>\<open>async\<close> function runs synchronously up to its first \<^verbatim>\<open>await\<close>. Its synchronous part
  either settles the call (\<open>Settled None\<close>: returned, \<open>Settled (Some e)\<close>: threw \<open>e\<close>) or
  leaves it suspended on the promise of \<^verbatim>\<open>mongoose.connect(uri)\<close>.
\<close>

datatype suspended = Settled "js_error option" | Awaiting "string option"

definition config_error :: js_error where
  "config_error =
     \<lparr>err_status = None, err_message = Some ''MONGO_URI environment variable is not set.''\<rparr>"

definition default_uri :: string where
  "default_uri = ''mongodb://localhost:27017/gym_management''"

text \<open>
  \<^verbatim>\<open>connectToDatabase\<close> (\<open>Srv1\<close>, server.js 109-125) and \<^verbatim>\<open>connectDatabase\<close> (the other four),
  up to the \<^verbatim>\<open>await\<close>. \<open>rs\<close> is the value read from \<^verbatim>\<open>mongoose.connections[0].readyState\<close>, a
  number owned by mongoose; only \<open>Part1\<close> reads it.
\<close>

fun connect_begin :: "revision \<Rightarrow> env \<Rightarrow> nat \<Rightarrow> proc \<Rightarrow> suspended \<times> proc" where
  "connect_begin Srv1 env rs st =
     (if isConnected st then (Settled None, st)
      else let mongoUri = env ''MONGO_URI'' in
        if \<not> truthy mongoUri then (Settled (Some config_error), st)
        else (Awaiting mongoUri, st\<lparr>connect_calls := connect_calls st @ [mongoUri]\<rparr>))"
| "connect_begin Part1 env rs st =
     (if rs \<noteq> 0 then (Settled None, st)
      else let uri = env ''MONGO_URI'' in
        (Awaiting uri, st\<lparr>connect_calls := connect_calls st @ [uri]\<rparr>))"
| "connect_begin Srv2 env rs st =
     (let mongoUri = (if truthy (env ''MONGO_URI'') then env ''MONGO_URI'' else Some default_uri)
      in (Awaiting mongoUri, st\<lparr>connect_calls := connect_calls st @ [mongoUri]\<rparr>))"
| "connect_begin Srv3 env rs st =
     (let uri = (if truthy (env ''MONGO_URI'') then env ''MONGO_URI'' else Some default_uri)
      in (Awaiting uri, st\<lparr>connect_calls := connect_calls st @ [uri]\<rparr>))"
| "connect_begin Part2 env rs st =
     (let uri = (if truthy (env ''MONGO_URI'') then env ''MONGO_URI'' else Some default_uri)
      in (Awaiting uri, st\<lparr>connect_calls := connect_calls st @ [uri]\<rparr>))"

text \<open>
  The continuation after the \<^verbatim>\<open>await\<close>, given how the promise settled (\<open>None\<close>: fulfilled).
  Only \<open>Srv1\<close> writes state here (\<^verbatim>\<open>isConnected = true\<close>); a rejection is logged and rethrown.
\<close>

fun connect_resume :: "revision \<Rightarrow> js_error option \<Rightarrow> proc \<Rightarrow> js_error option \<times> proc" where
  "connect_resume Srv1 None st = (None, st\<lparr>isConnected := True\<rparr>)"
| "connect_resume r None st = (None, st)"
| "connect_resume r (Some error) st = (Some error, st)"

text \<open>
  One call run to its end with nothing interleaved: \<open>mongoose_connect\<close> stands for the
  library call and says how the promise settles for a given argument.
\<close>

definition connect :: "revision \<Rightarrow> (string option \<Rightarrow> js_error option) \<Rightarrow> env \<Rightarrow> nat \<Rightarrow> proc
    \<Rightarrow> js_error option \<times> proc" where
  "connect r mongoose_connect env rs st =
     (case connect_begin r env rs st of
        (Settled res, st') \<Rightarrow> (res, st')
      | (Awaiting uri, st') \<Rightarrow> connect_resume r (mongoose_connect uri) st')"




section \<open>Storage root and storage areas\<close>

text \<open>
  What the Node runtime supplies: \<^verbatim>\<open>__dirname\<close>, \<^verbatim>\<open>os.tmpdir()\<close> and \<^verbatim>\<open>path.resolve\<close> (which
  depends on the working directory).
\<close>

record host =
  dirname :: string
  tmpdir :: string
  path_resolve :: "string \<Rightarrow> string"

text \<open>
  \<^verbatim>\<open>path.join(dir, seg)\<close> as the code uses it: \<open>dir\<close> is a normalised directory
  (\<^verbatim>\<open>__dirname\<close>, \<^verbatim>\<open>os.tmpdir()\<close>, \<^verbatim>\<open>'/tmp'\<close> or a result of \<^verbatim>\<open>path.resolve\<close>) and \<open>seg\<close> a plain
  name, so joining inserts one separator unless \<open>dir\<close> already ends with it (the root).
\<close>

definition path_join :: "string \<Rightarrow> string \<Rightarrow> string" where
  "path_join dir seg = (if dir \<noteq> [] \<and> last dir = CHR ''/'' then dir @ seg else dir @ ''/'' @ seg)"

text \<open>\<open>Srv2\<close>, server.js 168-174.\<close>

definition isServerless :: "env \<Rightarrow> bool" where
  "isServerless env = truthy (env ''VERCEL'')"

definition uploadBase :: "host \<Rightarrow> env \<Rightarrow> string" where
  "uploadBase h env =
     (let defaultLocalUploads = path_join (dirname h) ''uploads'';
          fallback = (if isServerless env then path_join (tmpdir h) ''gym_uploads''
                      else defaultLocalUploads)
      in case env ''UPLOAD_DIR'' of
           None \<Rightarrow> fallback
         | Some uploadBaseEnv \<Rightarrow> if uploadBaseEnv \<noteq> [] then path_resolve h uploadBaseEnv else fallback)"

text \<open>\<open>Srv3\<close> (server.js 398-399) and \<open>Part2\<close> (part_000 190-195); neither reads \<^verbatim>\<open>UPLOAD_DIR\<close>.\<close>

definition isProduction_Srv3 :: "env \<Rightarrow> bool" where
  "isProduction_Srv3 env = (env ''NODE_ENV'' = Some ''production'' \<or> truthy (env ''VERCEL''))"

definition isProduction_Part2 :: "env \<Rightarrow> bool" where
  "isProduction_Part2 env =
     (env ''NODE_ENV'' = Some ''production'' \<or> env ''VERCEL'' = Some ''1''
      \<or> env ''VERCEL'' = Some ''true'')"

definition uploadsDir :: "bool \<Rightarrow> host \<Rightarrow> string" where
  "uploadsDir isProduction h = (if isProduction then ''/tmp/uploads'' else path_join (dirname h) ''uploads'')"

text \<open>
  The file system is a parameter: \<^verbatim>\<open>fs.existsSync\<close> answers without raising;
  \<^verbatim>\<open>fs.mkdirSync(p, {recursive: true})\<close> returns the file system it leaves behind and
  \<open>Some message\<close> when it raised.
\<close>

record 'fs fs_ops =
  existsSync :: "'fs \<Rightarrow> string \<Rightarrow> bool"
  mkdirSync :: "'fs \<Rightarrow> string \<Rightarrow> string option \<times> 'fs"

datatype console =
    Created string
  | Directory_exists string
  | Could_not_create_directory string string
  | Could_not_create_directories string

record 'fs disk =
  files :: 'fs
  logged :: "console list"
  mkdir_calls :: "string list"

definition requiredDirs :: "string list" where
  "requiredDirs = [''uploads'', ''whatsapp-auth'', ''logs'']"

text \<open>\<open>Srv2\<close>, server.js 197-216: the \<^verbatim>\<open>try\<close>/\<^verbatim>\<open>catch\<close> stands inside the loop body.\<close>

definition dirPath_Srv2 :: "host \<Rightarrow> env \<Rightarrow> string \<Rightarrow> string" where
  "dirPath_Srv2 h env dir =
     (if isServerless env then path_join (uploadBase h env) dir else path_join (dirname h) dir)"

definition ensure_dir :: "'fs fs_ops \<Rightarrow> string \<Rightarrow> 'fs disk \<Rightarrow> 'fs disk" where
  "ensure_dir ops dirPath d =
     (if \<not> existsSync ops (files d) dirPath then
        (case mkdirSync ops (files d) dirPath of
           (None, fs') \<Rightarrow>
             d\<lparr>files := fs', logged := logged d @ [Created dirPath],
               mkdir_calls := mkdir_calls d @ [dirPath]\<rparr>
         | (Some msg, fs') \<Rightarrow>
             d\<lparr>files := fs', logged := logged d @ [Could_not_create_directory dirPath msg],
               mkdir_calls := mkdir_calls d @ [dirPath]\<rparr>)
      else d\<lparr>logged := logged d @ [Directory_exists dirPath]\<rparr>)"

definition ensure_dirs_Srv2 :: "'fs fs_ops \<Rightarrow> host \<Rightarrow> env \<Rightarrow> 'fs disk \<Rightarrow> 'fs disk" where
  "ensure_dirs_Srv2 ops h env d =
     foldl (\<lambda>d dir. ensure_dir ops (dirPath_Srv2 h env dir) d) d requiredDirs"

text \<open>
  \<^verbatim>\<open>createDirectories\<close> of \<open>Srv3\<close> (server.js 413-429) and \<open>Part2\<close> (part_000 226-241), the same
  text in both: one \<^verbatim>\<open>try\<close>/\<^verbatim>\<open>catch\<close> around the whole loop. The loop returns \<open>Some message\<close>
  when an exception left it.
\<close>

fun forEach_create :: "'fs fs_ops \<Rightarrow> string \<Rightarrow> string list \<Rightarrow> 'fs disk \<Rightarrow> string option \<times> 'fs disk" where
  "forEach_create ops baseDir [] d = (None, d)"
| "forEach_create ops baseDir (dir # dirs) d =
     (let dirPath = path_join baseDir dir in
      if \<not> existsSync ops (files d) dirPath then
        (case mkdirSync ops (files d) dirPath of
           (None, fs') \<Rightarrow>
             forEach_create ops baseDir dirs
               (d\<lparr>files := fs', logged := logged d @ [Created dirPath],
                  mkdir_calls := mkdir_calls d @ [dirPath]\<rparr>)
         | (Some msg, fs') \<Rightarrow>
             (Some msg, d\<lparr>files := fs', mkdir_calls := mkdir_calls d @ [dirPath]\<rparr>))
      else forEach_create ops baseDir dirs d)"

definition createDirectories :: "bool \<Rightarrow> 'fs fs_ops \<Rightarrow> host \<Rightarrow> 'fs disk \<Rightarrow> 'fs disk" where
  "createDirectories isProduction ops h d =
     (let baseDir = (if isProduction then ''/tmp'' else dirname h) in
      case forEach_create ops baseDir requiredDirs d of
        (None, d') \<Rightarrow> d'
      | (Some msg, d') \<Rightarrow> d'\<lparr>logged := logged d' @ [Could_not_create_directories msg]\<rparr>)"

section \<open>CORS policy\<close>

record cors_options =
  origin :: "string list"
  credentials :: bool
  methods :: "string list"
  allowedHeaders :: "string list"

text \<open>
  The object literal handed to \<^verbatim>\<open>cors(...)\<close> by each revision, as evaluated in a process with
  environment \<open>env\<close> (server.js 25-36, 180-191, 381-392; part_000 23-35, 198-209).
\<close>

fun cors_config :: "revision \<Rightarrow> env \<Rightarrow> cors_options" where
  "cors_config Srv1 env =
     \<lparr>origin = [''http://localhost:3000'', ''http://localhost:5173'', ''http://localhost:5174'',
                ''http://127.0.0.1:3000'', ''http://127.0.0.1:5173''],
      credentials = True,
      methods = [''GET'', ''POST'', ''PUT'', ''DELETE'', ''OPTIONS''],
      allowedHeaders = [''Content-Type'', ''Authorization'']\<rparr>"
| "cors_config Srv2 env =
     \<lparr>origin = [''http://localhost:3000'', ''http://localhost:5173'', ''http://localhost:5174'',
                ''http://127.0.0.1:3000'', ''http://127.0.0.1:5173''],
      credentials = True,
      methods = [''GET'', ''POST'', ''PUT'', ''DELETE'', ''OPTIONS''],
      allowedHeaders = [''Content-Type'', ''Authorization'']\<rparr>"
| "cors_config Srv3 env =
     \<lparr>origin = [''http://localhost:3000'', ''http://localhost:5173'', ''http://localhost:5174'',
                ''http://127.0.0.1:3000'', ''http://127.0.0.1:5173''],
      credentials = True,
      methods = [''GET'', ''POST'', ''PUT'', ''DELETE'', ''OPTIONS''],
      allowedHeaders = [''Content-Type'', ''Authorization'']\<rparr>"
| "cors_config Part1 env =
     \<lparr>origin = [''http://localhost:3000'', ''http://localhost:5173'', ''http://localhost:5174'',
                ''http://127.0.0.1:3000'', ''http://127.0.0.1:5173''],
      credentials = True,
      methods = [''GET'', ''POST'', ''PUT'', ''DELETE'', ''OPTIONS''],
      allowedHeaders = [''Content-Type'', ''Authorization'']\<rparr>"
| "cors_config Part2 env =
     \<lparr>origin = [''http://localhost:3000'', ''http://localhost:5173'', ''http://localhost:5174'',
                ''http://127.0.0.1:3000'', ''http://127.0.0.1:5173''],
      credentials = True,
      methods = [''GET'', ''POST'', ''PUT'', ''DELETE'', ''OPTIONS''],
      allowedHeaders = [''Content-Type'', ''Authorization'']\<rparr>"

section \<open>Requests and the dispatch of Express\<close>

record request =
  req_method :: string
  req_url :: string

text \<open>
  What a middleware function does with a request: it calls \<^verbatim>\<open>next()\<close>, or ends the request
  with a response and does not call \<^verbatim>\<open>next\<close>, or raises (equivalently calls \<^verbatim>\<open>next(err)\<close>).
\<close>

datatype outcome = Next | Respond response | Throw js_error

text \<open>
  Express matches the path of the URL (the part before \<^verbatim>\<open>?\<close>) without regard to letter case.
  A path given to \<^verbatim>\<open>app.use\<close> matches as a prefix that ends at the end of the path or before a
  \<^verbatim>\<open>/\<close>; \<^verbatim>\<open>app.use(fn)\<close> is \<^verbatim>\<open>app.use('/', fn)\<close> and matches every path. A path given to \<^verbatim>\<open>app.get\<close>
  matches whole, with an optional final \<^verbatim>\<open>/\<close>. All paths of the code are literal.
\<close>

definition lower_char :: "char \<Rightarrow> char" where
  "lower_char c =
     (case map_of (zip ''ABCDEFGHIJKLMNOPQRSTUVWXYZ'' ''abcdefghijklmnopqrstuvwxyz'') c of
        None \<Rightarrow> c | Some d \<Rightarrow> d)"

definition lower :: "string \<Rightarrow> string" where
  "lower s = map lower_char s"

definition pathname :: "string \<Rightarrow> string" where
  "pathname url = takeWhile (\<lambda>c. c \<noteq> CHR ''?'') url"

definition use_match :: "string \<Rightarrow> string \<Rightarrow> bool" where
  "use_match mount p =
     (mount = ''/'' \<or>
      (prefix (lower mount) (lower p) \<and>
       (case drop (length mount) p of [] \<Rightarrow> True | c # cs \<Rightarrow> c = CHR ''/'')))"

definition route_match :: "string \<Rightarrow> string \<Rightarrow> bool" where
  "route_match path p =
     (if path = ''/'' then p = [] \<or> p = ''/''
      else lower p = lower path \<or> lower p = lower path @ ''/'')"

text \<open>A \<^verbatim>\<open>GET\<close> route also serves \<^verbatim>\<open>HEAD\<close>.\<close>

definition handles_method :: "string \<Rightarrow> bool" where
  "handles_method m = (m = ''GET'' \<or> m = ''HEAD'')"

datatype router = WhatsappRoutes | CustomerRoutes | AttendanceRoutes | ReportRoutes

datatype layer_name =
    L_cors | L_json | L_urlencoded | L_static | L_logger
  | L_root | L_mount string router | L_health | L_test_whatsapp
  | L_notfound | L_error | L_gate

datatype matcher = Use string | Get string

text \<open>
  An entry of the application's stack. \<open>larity\<close> is the number of declared parameters of the
  registered function (\<^verbatim>\<open>fn.length\<close>): Express calls a function of four parameters only
  with an error, as \<^verbatim>\<open>(err, req, res, next)\<close>, and every other function only without one, as
  \<^verbatim>\<open>(req, res, next)\<close>. \<open>lfn\<close> is what the function does when called (its first argument is
  the error it is called with, if any).
\<close>

record layer =
  lname :: layer_name
  lmatcher :: matcher
  larity :: nat
  lfn :: "js_error option \<Rightarrow> request \<Rightarrow> proc \<Rightarrow> outcome \<times> proc"

definition layer_match :: "layer \<Rightarrow> request \<Rightarrow> bool" where
  "layer_match l req =
     (case lmatcher l of
        Use m \<Rightarrow> use_match m (pathname (req_url req))
      | Get p \<Rightarrow> route_match p (pathname (req_url req)))"

text \<open>Whether the router calls the function of a layer, given the pending error.\<close>

definition invoked :: "layer \<Rightarrow> js_error option \<Rightarrow> request \<Rightarrow> bool" where
  "invoked l err req =
     (layer_match l req \<and>
      (case lmatcher l of
         Get p \<Rightarrow> err = None \<and> handles_method (req_method req)
       | Use m \<Rightarrow> (case err of None \<Rightarrow> larity l \<le> 3 | Some e \<Rightarrow> larity l = 4)))"

text \<open>
  The router walks the stack in registration order. A request is \<open>Running\<close> with the pending
  error, or \<open>Finished\<close> with the response a function sent without calling \<^verbatim>\<open>next\<close>. The trace
  lists the layers whose function was called.
\<close>

datatype flow = Running "js_error option" | Finished response

type_synonym cursor = "flow \<times> layer_name list \<times> proc"

fun step :: "request \<Rightarrow> cursor \<Rightarrow> layer \<Rightarrow> cursor" where
  "step req (Finished r, tr, st) l = (Finished r, tr, st)"
| "step req (Running err, tr, st) l =
     (if invoked l err req then
        (case lfn l err req st of
           (Next, st') \<Rightarrow> (Running None, tr @ [lname l], st')
         | (Respond r, st') \<Rightarrow> (Finished r, tr @ [lname l], st')
         | (Throw e, st') \<Rightarrow> (Running (Some e), tr @ [lname l], st'))
      else (Running err, tr, st))"

text \<open>
  A request that is still \<open>Running\<close> after the last layer goes to the final handler of
  Express (its own 404 page, or its own error page for a pending error). Express's
  automatic reply to \<^verbatim>\<open>OPTIONS\<close> is built only there and only without a pending error; the
  stacks below end in a fallback that answers every request reaching it without an error,
  so it never arises.
\<close>

definition dispatch :: "layer list \<Rightarrow> request \<Rightarrow> proc \<Rightarrow> cursor" where
  "dispatch stack req st = foldl (step req) (Running None, [], st) stack"

definition flow_of :: "cursor \<Rightarrow> flow" where
  "flow_of c = fst c"

definition trace_of :: "cursor \<Rightarrow> layer_name list" where
  "trace_of c = fst (snd c)"


section \<open>The application stacks\<close>

text \<open>
  Code of other modules and libraries, taken as parameters: the middleware built by
  \<^verbatim>\<open>cors\<close>, \<^verbatim>\<open>express.json\<close>, \<^verbatim>\<open>express.urlencoded\<close> and \<^verbatim>\<open>express.static\<close> (given its root
  directory), the four routers of \<^verbatim>\<open>./routes/\<close> (given the path they are mounted at, since a
  mounted router sees the URL without it), \<^verbatim>\<open>mongoose.connect\<close>, the current
  \<^verbatim>\<open>readyState\<close> of mongoose and \<^verbatim>\<open>new Date().toISOString()\<close>.
\<close>

record collaborators =
  cors :: "cors_options \<Rightarrow> request \<Rightarrow> outcome"
  express_json :: "request \<Rightarrow> outcome"
  express_urlencoded :: "request \<Rightarrow> outcome"
  express_static :: "string \<Rightarrow> string \<Rightarrow> request \<Rightarrow> outcome"
  whatsappRoutes :: "string \<Rightarrow> request \<Rightarrow> outcome"
  customerRoutes :: "string \<Rightarrow> request \<Rightarrow> outcome"
  attendanceRoutes :: "string \<Rightarrow> request \<Rightarrow> outcome"
  reportRoutes :: "string \<Rightarrow> request \<Rightarrow> outcome"
  mongoose_connect :: "string option \<Rightarrow> js_error option"
  mongoose_readyState :: nat
  toISOString_now :: string

definition use_fn :: "layer_name \<Rightarrow> string \<Rightarrow> (request \<Rightarrow> outcome) \<Rightarrow> layer" where
  "use_fn n m f = \<lparr>lname = n, lmatcher = Use m, larity = 3, lfn = (\<lambda>err req st. (f req, st))\<rparr>"

definition mount :: "string \<Rightarrow> router \<Rightarrow> (string \<Rightarrow> request \<Rightarrow> outcome) \<Rightarrow> layer" where
  "mount m r f = use_fn (L_mount m r) m (f m)"

definition get_route :: "layer_name \<Rightarrow> string \<Rightarrow> (request \<Rightarrow> response) \<Rightarrow> layer" where
  "get_route n p f =
     \<lparr>lname = n, lmatcher = Get p, larity = 2, lfn = (\<lambda>err req st. (Respond (f req), st))\<rparr>"

text \<open>\<^verbatim>\<open>res.json(body)\<close> answers with status 200 unless \<^verbatim>\<open>res.status\<close> was called.\<close>

definition res_json :: "json \<Rightarrow> response" where
  "res_json body = \<lparr>res_status = 200, res_body = body\<rparr>"

text \<open>The canonical and the legacy mounts, the same seven lines in every revision.\<close>

definition routes :: "collaborators \<Rightarrow> layer list" where
  "routes c =
     [mount ''/api/whatsapp'' WhatsappRoutes (whatsappRoutes c),
      mount ''/api/customers'' CustomerRoutes (customerRoutes c),
      mount ''/api/attendance'' AttendanceRoutes (attendanceRoutes c),
      mount ''/api/reports'' ReportRoutes (reportRoutes c),
      mount ''/api'' CustomerRoutes (customerRoutes c),
      mount ''/api'' AttendanceRoutes (attendanceRoutes c),
      mount ''/api'' ReportRoutes (reportRoutes c)]"

definition parsers :: "revision \<Rightarrow> env \<Rightarrow> collaborators \<Rightarrow> layer list" where
  "parsers r env c =
     [use_fn L_cors ''/'' (cors c (cors_config r env)),
      use_fn L_json ''/'' (express_json c),
      use_fn L_urlencoded ''/'' (express_urlencoded c)]"

definition static_uploads :: "collaborators \<Rightarrow> string \<Rightarrow> layer" where
  "static_uploads c root = use_fn L_static ''/uploads'' (express_static c root ''/uploads'')"

definition logger :: layer where
  "logger = use_fn L_logger ''/'' (\<lambda>req. Next)"

definition test_whatsapp :: layer where
  "test_whatsapp = get_route L_test_whatsapp ''/test-whatsapp'' (\<lambda>req. res_json (JObj
     [(''message'', JStr ''WhatsApp route is working''),
      (''availableEndpoints'', JArr
        [JStr ''GET /api/whatsapp/status'',
         JStr ''POST /api/whatsapp/init-whatsapp-web'',
         JStr ''POST /api/whatsapp/request-whatsapp-verification'',
         JStr ''POST /api/whatsapp/verify-whatsapp-code'',
         JStr ''POST /api/whatsapp/send-message'',
         JStr ''POST /api/whatsapp/disconnect''])]))"

definition routes_json :: "bool \<Rightarrow> json" where
  "routes_json with_root = JObj
     ((if with_root then [(''root'', JStr ''/'')] else []) @
      [(''whatsapp'', JStr ''/api/whatsapp''),
       (''customers'', JStr ''/api/customers''),
       (''attendance'', JStr ''/api/attendance''),
       (''reports'', JStr ''/api/reports'')])"

text \<open>The body of \<^verbatim>\<open>GET /health\<close> in each revision.\<close>

fun health_body :: "revision \<Rightarrow> host \<Rightarrow> env \<Rightarrow> string \<Rightarrow> json" where
  "health_body Srv1 h env now = JObj
     [(''status'', JStr ''OK''), (''message'', JStr ''Server is running''),
      (''timestamp'', JStr now)]"
| "health_body Srv2 h env now = JObj
     [(''status'', JStr ''OK''), (''message'', JStr ''Server is running''),
      (''timestamp'', JStr now),
      (''env'', JObj [(''isServerless'', JBool (isServerless env)),
                      (''uploadBase'', JStr (uploadBase h env))]),
      (''routes'', routes_json False)]"
| "health_body Srv3 h env now = JObj
     [(''status'', JStr ''OK''), (''message'', JStr ''Server is running''),
      (''timestamp'', JStr now),
      (''environment'', JStr (if isProduction_Srv3 env then ''production'' else ''development'')),
      (''uploadsDir'', JStr (uploadsDir (isProduction_Srv3 env) h)),
      (''routes'', routes_json False)]"
| "health_body Part1 h env now = JObj
     [(''status'', JStr ''OK''), (''message'', JStr ''Server is running''),
      (''timestamp'', JStr now),
      (''routes'', routes_json False)]"
| "health_body Part2 h env now = JObj
     [(''status'', JStr ''OK''), (''message'', JStr ''Server is running''),
      (''timestamp'', JStr now),
      (''environment'', JStr (if isProduction_Part2 env then ''production'' else ''development'')),
      (''uploadsDir'', JStr (uploadsDir (isProduction_Part2 env) h)),
      (''routes'', routes_json True)]"

definition health :: "revision \<Rightarrow> host \<Rightarrow> env \<Rightarrow> collaborators \<Rightarrow> layer" where
  "health r h env c = get_route L_health ''/health'' (\<lambda>req. res_json (health_body r h env (toISOString_now c)))"

text \<open>The root route exists in \<open>Srv1\<close> (server.js 55-61) and \<open>Part2\<close> (part_000 259-275).\<close>

definition root_Srv1 :: layer where
  "root_Srv1 = get_route L_root ''/'' (\<lambda>req. res_json (JObj
     [(''status'', JStr ''OK''), (''message'', JStr ''Welcome to the backend API!''),
      (''availableRoutes'', JArr [JStr ''/health'', JStr ''/api/customers'', JStr ''/api/whatsapp''])]))"

definition root_Part2 :: layer where
  "root_Part2 = get_route L_root ''/'' (\<lambda>req. res_json (JObj
     [(''success'', JBool True),
      (''message'', JStr (''Welcome '' @ [CHR 0xE2, CHR 0x80, CHR 0x94] @ '' API is up. See /health for details.'')),
      (''health'', JStr ''/health''),
      (''availableRoutes'', JArr
        [JStr ''/'', JStr ''/health'', JStr ''/test-whatsapp'', JStr ''/api/whatsapp/status'',
         JStr ''/api/customers'', JStr ''/api/attendance'', JStr ''/api/reports''])]))"

text \<open>
  The fallback registered after the routes. In \<open>Srv1\<close> (server.js 89-94) it is
  \<^verbatim>\<open>(req, res) => ...\<close> and its body has no \<^verbatim>\<open>availableRoutes\<close>; in the others it is
  \<^verbatim>\<open>(req, res, next) => ...\<close>. It never calls \<^verbatim>\<open>next\<close>.
\<close>

definition not_found_message :: "request \<Rightarrow> string" where
  "not_found_message req = ''Route '' @ req_method req @ '' '' @ req_url req @ '' not found''"

fun not_found_body :: "revision \<Rightarrow> request \<Rightarrow> json" where
  "not_found_body Srv1 req = JObj
     [(''success'', JBool False), (''message'', JStr (not_found_message req))]"
| "not_found_body Part2 req = JObj
     [(''success'', JBool False), (''message'', JStr (not_found_message req)),
      (''availableRoutes'', JArr
        [JStr ''/'', JStr ''/health'', JStr ''/test-whatsapp'', JStr ''/api/whatsapp/status'',
         JStr ''/api/customers'', JStr ''/api/attendance'', JStr ''/api/reports''])]"
| "not_found_body r req = JObj
     [(''success'', JBool False), (''message'', JStr (not_found_message req)),
      (''availableRoutes'', JArr
        [JStr ''/health'', JStr ''/test-whatsapp'', JStr ''/api/whatsapp/status'',
         JStr ''/api/customers'', JStr ''/api/attendance'', JStr ''/api/reports''])]"

definition not_found :: "revision \<Rightarrow> layer" where
  "not_found r =
     \<lparr>lname = L_notfound, lmatcher = Use ''/'', larity = (if r = Srv1 then 2 else 3),
      lfn = (\<lambda>err req st. (Respond \<lparr>res_status = 404, res_body = not_found_body r req\<rparr>, st))\<rparr>"

text \<open>
  The global error handler: \<^verbatim>\<open>res.status(error.status || 500).json({success: false, message:
  error.message || 'Internal server error', timestamp: new Date().toISOString()})\<close>.
\<close>

definition error_response :: "string \<Rightarrow> js_error \<Rightarrow> response" where
  "error_response now error =
     \<lparr>res_status = (case err_status error of None \<Rightarrow> 500 | Some n \<Rightarrow> if n = 0 then 500 else n),
      res_body = JObj
        [(''success'', JBool False),
         (''message'', JStr (case err_message error of
                               None \<Rightarrow> ''Internal server error''
                             | Some m \<Rightarrow> if m = [] then ''Internal server error'' else m)),
         (''timestamp'', JStr now)]\<rparr>"

text \<open>
  Called without an error, the parameters of the handler are bound one place off
  (\<^verbatim>\<open>error\<close> is the request, \<^verbatim>\<open>res\<close> is \<^verbatim>\<open>next\<close>), and \<^verbatim>\<open>res.status(...)\<close> raises a \<^verbatim>\<open>TypeError\<close>.
\<close>

definition not_a_function :: js_error where
  "not_a_function = \<lparr>err_status = None, err_message = Some ''res.status is not a function''\<rparr>"

text \<open>
  \<open>Srv1\<close> registers \<^verbatim>\<open>(error, req, res) => ...\<close>, a function of three parameters
  (server.js 96); the other revisions register \<^verbatim>\<open>(error, req, res, next) => ...\<close>.
\<close>

definition error_handler :: "revision \<Rightarrow> collaborators \<Rightarrow> layer" where
  "error_handler r c =
     \<lparr>lname = L_error, lmatcher = Use ''/'', larity = (if r = Srv1 then 3 else 4),
      lfn = (\<lambda>err req st.
        (case err of
           Some error \<Rightarrow> Respond (error_response (toISOString_now c) error)
         | None \<Rightarrow> Throw not_a_function, st))\<rparr>"

text \<open>
  The readiness middleware of \<open>Srv1\<close> (server.js 129-136) and \<open>Part1\<close> (part_000 151-158):
  \<^verbatim>\<open>try { await connect...(); next(); } catch (error) { res.status(500).json(...) }\<close>.
\<close>

definition connection_failed :: response where
  "connection_failed =
     \<lparr>res_status = 500,
      res_body = JObj [(''success'', JBool False), (''message'', JStr ''Database connection failed'')]\<rparr>"

definition gate_fn :: "revision \<Rightarrow> env \<Rightarrow> collaborators \<Rightarrow> proc \<Rightarrow> outcome \<times> proc" where
  "gate_fn r env c st =
     (case connect r (mongoose_connect c) env (mongoose_readyState c) st of
        (None, st') \<Rightarrow> (Next, st')
      | (Some error, st') \<Rightarrow> (Respond connection_failed, st'))"

definition gate :: "revision \<Rightarrow> env \<Rightarrow> collaborators \<Rightarrow> layer" where
  "gate r env c =
     \<lparr>lname = L_gate, lmatcher = Use ''/'', larity = 3, lfn = (\<lambda>err req st. gate_fn r env c st)\<rparr>"

text \<open>The stack of each revision, in the order of the \<^verbatim>\<open>app.use\<close> and \<^verbatim>\<open>app.get\<close> calls.\<close>

definition staticUploadsPath :: "host \<Rightarrow> env \<Rightarrow> string" where
  "staticUploadsPath h env =
     (if isServerless env then path_join (uploadBase h env) ''uploads''
      else path_join (dirname h) ''uploads'')"

fun before_routes :: "revision \<Rightarrow> host \<Rightarrow> env \<Rightarrow> collaborators \<Rightarrow> layer list" where
  "before_routes Srv1 h env c = parsers Srv1 env c @ [logger, root_Srv1]"
| "before_routes Srv2 h env c =
     parsers Srv2 env c @ [static_uploads c (staticUploadsPath h env), logger]"
| "before_routes Srv3 h env c =
     parsers Srv3 env c @
     (if \<not> isProduction_Srv3 env then [static_uploads c (path_join (dirname h) ''uploads'')] else []) @
     [logger]"
| "before_routes Part1 h env c =
     parsers Part1 env c @ [static_uploads c (path_join (dirname h) ''uploads''), logger]"
| "before_routes Part2 h env c =
     parsers Part2 env c @
     (if \<not> isProduction_Part2 env then [static_uploads c (path_join (dirname h) ''uploads'')] else []) @
     [logger]"

fun get_routes :: "revision \<Rightarrow> host \<Rightarrow> env \<Rightarrow> collaborators \<Rightarrow> layer list" where
  "get_routes Srv1 h env c = [health Srv1 h env c]"
| "get_routes Part2 h env c = [root_Part2, health Part2 h env c, test_whatsapp]"
| "get_routes r h env c = [health r h env c, test_whatsapp]"

text \<open>\<open>Srv1\<close> and \<open>Part1\<close> register the readiness middleware last, after the error handler.\<close>

fun after_error_handler :: "revision \<Rightarrow> env \<Rightarrow> collaborators \<Rightarrow> layer list" where
  "after_error_handler Srv1 env c = [gate Srv1 env c]"
| "after_error_handler Part1 env c = [gate Part1 env c]"
| "after_error_handler r env c = []"

definition stack :: "revision \<Rightarrow> host \<Rightarrow> env \<Rightarrow> collaborators \<Rightarrow> layer list" where
  "stack r h env c =
     before_routes r h env c @ routes c @ get_routes r h env c @
     [not_found r, error_handler r c] @ after_error_handler r env c"

definition handle :: "revision \<Rightarrow> host \<Rightarrow> env \<Rightarrow> collaborators \<Rightarrow> request \<Rightarrow> proc \<Rightarrow> cursor" where
  "handle r h env c req st = dispatch (stack r h env c) req st"

text \<open>
  What the module does about the database when it is loaded. \<open>Srv2\<close> connects and then
  listens, or exits; \<open>Srv3\<close> and \<open>Part2\<close> do so outside production and only connect (logging a
  failure) in production; \<open>Srv1\<close> and \<open>Part1\<close> do nothing at load time.
\<close>

datatype boot = Listening string | Exited int | Exported

definition port :: "env \<Rightarrow> string" where
  "port env = (case env ''PORT'' of None \<Rightarrow> ''5000'' | Some p \<Rightarrow> if p = [] then ''5000'' else p)"

definition startServer :: "revision \<Rightarrow> bool \<Rightarrow> env \<Rightarrow> collaborators \<Rightarrow> proc \<Rightarrow> boot \<times> proc" where
  "startServer r isProduction env c st =
     (case connect r (mongoose_connect c) env (mongoose_readyState c) st of
        (None, st') \<Rightarrow> (if \<not> isProduction then Listening (port env) else Exported, st')
      | (Some error, st') \<Rightarrow> (if \<not> isProduction then Exited 1 else Exported, st'))"

fun startup :: "revision \<Rightarrow> env \<Rightarrow> collaborators \<Rightarrow> proc \<Rightarrow> boot \<times> proc" where
  "startup Srv1 env c st = (Exported, st)"
| "startup Part1 env c st = (Exported, st)"
| "startup Srv2 env c st = startServer Srv2 False env c st"
| "startup Srv3 env c st =
     (if \<not> isProduction_Srv3 env then startServer Srv3 False env c st
      else (Exported, snd (connect Srv3 (mongoose_connect c) env (mongoose_readyState c) st)))"
| "startup Part2 env c st =
     (if \<not> isProduction_Part2 env then startServer Part2 False env c st
      else (Exported, snd (connect Part2 (mongoose_connect c) env (mongoose_readyState c) st)))"

section \<open>Concrete inputs\<close>

text \<open>
  Collaborators that decline everything: the library middleware calls \<^verbatim>\<open>next()\<close>, no router
  has a route for the request, and mongoose connects.
\<close>

definition declining :: collaborators where
  "declining =
     \<lparr>cors = (\<lambda>opts req. Next), express_json = (\<lambda>req. Next), express_urlencoded = (\<lambda>req. Next),
      express_static = (\<lambda>root m req. Next),
      whatsappRoutes = (\<lambda>m req. Next), customerRoutes = (\<lambda>m req. Next),
      attendanceRoutes = (\<lambda>m req. Next), reportRoutes = (\<lambda>m req. Next),
      mongoose_connect = (\<lambda>uri. None), mongoose_readyState = 0,
      toISOString_now = ''2025-01-01T00:00:00.000Z''\<rparr>"

definition forbidden :: js_error where
  "forbidden = \<lparr>err_status = Some 403, err_message = Some ''Forbidden''\<rparr>"

definition unreachable :: js_error where
  "unreachable = \<lparr>err_status = None, err_message = Some ''connect ECONNREFUSED''\<rparr>"

definition vercel_host :: host where
  "vercel_host = \<lparr>dirname = ''/var/task'', tmpdir = ''/tmp'', path_resolve = (\<lambda>p. p)\<rparr>"

definition env_of :: "(string \<times> string) list \<Rightarrow> env" where
  "env_of kvs = map_of kvs"

definition GET :: "string \<Rightarrow> request" where
  "GET url = \<lparr>req_method = ''GET'', req_url = url\<rparr>"

definition production_env :: env where
  "production_env = env_of [(''NODE_ENV'', ''production''), (''VERCEL'', ''1'')]"

text \<open>
  A file system given by the list of its directories, on which creating \<^verbatim>\<open>/tmp/uploads\<close>
  fails and every other creation succeeds.
\<close>

definition uploads_blocked :: "string list fs_ops" where
  "uploads_blocked =
     \<lparr>existsSync = (\<lambda>fs p. p \<in> set fs),
      mkdirSync = (\<lambda>fs p. if p = ''/tmp/uploads'' then (Some ''EACCES: permission denied'', fs)
                           else (None, fs @ [p]))\<rparr>"

definition empty_disk :: "string list disk" where
  "empty_disk = \<lparr>files = [], logged = [], mkdir_calls = []\<rparr>"

text \<open>A disk on which \<^verbatim>\<open>/tmp/uploads\<close> is already there.\<close>

definition uploads_present :: "string list disk" where
  "uploads_present = \<lparr>files = [''/tmp/uploads''], logged = [], mkdir_calls = []\<rparr>"


section \<open>Reading results\<close>

text \<open>A field of a JSON object.\<close>

fun json_field :: "string \<Rightarrow> json \<Rightarrow> json option" where
  "json_field k (JObj kvs) = map_of kvs k"
| "json_field k j = None"

section \<open>Connection acquisition: properties\<close>


text \<open>
  Claim C3 (missing URI), as amended. With \<^verbatim>\<open>MONGO_URI\<close> unset or empty:
  \<^verbatim>\<open>connectToDatabase\<close> of \<open>Srv1\<close>, called while not connected, throws the configuration error,
  makes no call of \<^verbatim>\<open>mongoose.connect\<close> and leaves the state as it was, so only that attempt
  fails; \<^verbatim>\<open>connectDatabase\<close> of \<open>Srv2\<close>, \<open>Srv3\<close> and \<open>Part2\<close> calls \<^verbatim>\<open>mongoose.connect\<close> with the
  default URI and ends as that attempt ends; \<open>Part1\<close> hands the unset value to
  \<^verbatim>\<open>mongoose.connect\<close> as it is.
\<close>

theorem missing_uri:
  "\<not> truthy (env ''MONGO_URI'') \<Longrightarrow>
     (\<not> isConnected st \<longrightarrow> connect Srv1 mc env rs st = (Some config_error, st))
     \<and> (r \<in> {Srv2, Srv3, Part2} \<longrightarrow>
          connect_begin r env rs st =
            (Awaiting (Some default_uri), st\<lparr>connect_calls := connect_calls st @ [Some default_uri]\<rparr>)
          \<and> connect r mc env rs st =
            (mc (Some default_uri), st\<lparr>connect_calls := connect_calls st @ [Some default_uri]\<rparr>))
     \<and> connect_begin Part1 env 0 st =
          (Awaiting (env ''MONGO_URI''), st\<lparr>connect_calls := connect_calls st @ [env ''MONGO_URI'']\<rparr>)"
  by (cases "mc (Some default_uri)") (auto simp: connect_def Let_def)

theorem missing_uri_witness:
  "\<not> truthy (env_of [] ''MONGO_URI'') \<and> \<not> isConnected fresh
   \<and> connect Srv1 (\<lambda>uri. None) (env_of []) 0 fresh = (Some config_error, fresh)
   \<and> Part2 \<in> {Srv2, Srv3, Part2}
   \<and> connect Part2 (\<lambda>uri. None) (env_of []) 0 fresh =
       (None, \<lparr>isConnected = False, connect_calls = [Some ''mongodb://localhost:27017/gym_management'']\<rparr>)"
  using missing_uri [of "env_of []" fresh "\<lambda>uri. None" 0 Part2]
  by (simp add: env_of_def truthy_def fresh_def default_uri_def)

text \<open>
  The claim as stated fails on \<open>Part2\<close> in production mode: with no URI configured, loading
  the module makes a connection attempt to the default URI, and no configuration error is
  raised.
\<close>

theorem default_uri_in_production:
  "startup Part2 production_env
     (declining\<lparr>mongoose_connect := (\<lambda>uri. if uri = Some default_uri then None else Some unreachable)\<rparr>)
     fresh
   = (Exported,
      \<lparr>isConnected = False, connect_calls = [Some ''mongodb://localhost:27017/gym_management'']\<rparr>)"
  by (simp add: production_env_def env_of_def isProduction_Part2_def connect_def truthy_def fresh_def
        default_uri_def declining_def Let_def)

section \<open>Storage: properties\<close>

text \<open>
  Claim C4 (storage root), as amended. In \<open>Srv2\<close> a non-empty \<^verbatim>\<open>UPLOAD_DIR\<close> decides the root, as
  \<^verbatim>\<open>path.resolve\<close> of it, whether or not \<^verbatim>\<open>VERCEL\<close> is set; without it the root is
  \<^verbatim>\<open>gym_uploads\<close> under \<^verbatim>\<open>os.tmpdir()\<close> when serverless and \<^verbatim>\<open>uploads\<close> under \<^verbatim>\<open>__dirname\<close>
  otherwise. \<open>Srv3\<close> and \<open>Part2\<close> have no override: their root is \<^verbatim>\<open>/tmp/uploads\<close> in production
  and \<^verbatim>\<open>uploads\<close> under \<^verbatim>\<open>__dirname\<close> otherwise, whatever \<^verbatim>\<open>UPLOAD_DIR\<close> is set to.
\<close>

theorem storage_root:
  "(truthy (env ''UPLOAD_DIR'') \<longrightarrow> uploadBase h env = path_resolve h (the (env ''UPLOAD_DIR'')))
   \<and> (\<not> truthy (env ''UPLOAD_DIR'') \<and> isServerless env \<longrightarrow>
        uploadBase h env = path_join (tmpdir h) ''gym_uploads''
        \<and> strict_prefix (tmpdir h) (uploadBase h env))
   \<and> (\<not> truthy (env ''UPLOAD_DIR'') \<and> \<not> isServerless env \<longrightarrow>
        uploadBase h env = path_join (dirname h) ''uploads''
        \<and> strict_prefix (dirname h) (uploadBase h env))
   \<and> (isProduction_Srv3 env \<longrightarrow> uploadsDir (isProduction_Srv3 env) h = ''/tmp/uploads'')
   \<and> (\<not> isProduction_Srv3 env \<longrightarrow>
        uploadsDir (isProduction_Srv3 env) h = path_join (dirname h) ''uploads''
        \<and> strict_prefix (dirname h) (uploadsDir (isProduction_Srv3 env) h))
   \<and> (isProduction_Part2 env \<longrightarrow> uploadsDir (isProduction_Part2 env) h = ''/tmp/uploads'')
   \<and> (\<not> isProduction_Part2 env \<longrightarrow>
        uploadsDir (isProduction_Part2 env) h = path_join (dirname h) ''uploads''
        \<and> strict_prefix (dirname h) (uploadsDir (isProduction_Part2 env) h))
   \<and> uploadsDir (isProduction_Srv3 (env(''UPLOAD_DIR'' := v))) h = uploadsDir (isProduction_Srv3 env) h
   \<and> uploadsDir (isProduction_Part2 (env(''UPLOAD_DIR'' := v))) h = uploadsDir (isProduction_Part2 env) h"
  by (auto simp: uploadBase_def uploadsDir_def truthy_def path_join_def Let_def strict_prefix_def
        isProduction_Srv3_def isProduction_Part2_def
      split: option.splits)

theorem storage_root_witness:
  "uploadBase vercel_host (env_of [(''UPLOAD_DIR'', ''/data/gym''), (''VERCEL'', ''1'')]) = ''/data/gym''
   \<and> uploadBase vercel_host (env_of [(''UPLOAD_DIR'', ''/data/gym'')]) = ''/data/gym''
   \<and> uploadBase vercel_host (env_of [(''VERCEL'', ''1'')]) = ''/tmp/gym_uploads''
   \<and> uploadBase vercel_host (env_of []) = ''/var/task/uploads''
   \<and> uploadsDir (isProduction_Srv3 (env_of [(''VERCEL'', ''1'')])) vercel_host = ''/tmp/uploads''
   \<and> uploadsDir (isProduction_Srv3 (env_of [])) vercel_host = ''/var/task/uploads''
   \<and> uploadsDir (isProduction_Part2 (env_of [(''NODE_ENV'', ''production'')])) vercel_host = ''/tmp/uploads''
   \<and> uploadsDir (isProduction_Part2 (env_of [(''VERCEL'', ''yes'')])) vercel_host = ''/var/task/uploads''"
  using storage_root [of "env_of [(''UPLOAD_DIR'', ''/data/gym''), (''VERCEL'', ''1'')]" vercel_host]
    storage_root [of "env_of [(''UPLOAD_DIR'', ''/data/gym'')]" vercel_host]
    storage_root [of "env_of [(''VERCEL'', ''1'')]" vercel_host]
    storage_root [of "env_of []" vercel_host]
    storage_root [of "env_of [(''NODE_ENV'', ''production'')]" vercel_host]
    storage_root [of "env_of [(''VERCEL'', ''yes'')]" vercel_host]
  by (simp add: env_of_def truthy_def isServerless_def isProduction_Srv3_def isProduction_Part2_def
        vercel_host_def path_join_def)

text \<open>
  The claim as stated fails on \<open>Srv3\<close> and \<open>Part2\<close>: with \<^verbatim>\<open>UPLOAD_DIR=/data/gym\<close> set, the
  storage root is \<^verbatim>\<open>/var/task/uploads\<close> (outside production) or \<^verbatim>\<open>/tmp/uploads\<close> (in
  production), not the override.
\<close>

theorem uploadsDir_ignores_override:
  "truthy (env_of [(''UPLOAD_DIR'', ''/data/gym'')] ''UPLOAD_DIR'')
   \<and> path_resolve vercel_host ''/data/gym'' = ''/data/gym''
   \<and> uploadsDir (isProduction_Srv3 (env_of [(''UPLOAD_DIR'', ''/data/gym'')])) vercel_host
       = ''/var/task/uploads''
   \<and> uploadsDir (isProduction_Part2 (env_of [(''UPLOAD_DIR'', ''/data/gym''), (''NODE_ENV'', ''production'')]))
        vercel_host = ''/tmp/uploads''"
  by (simp add: env_of_def truthy_def isProduction_Srv3_def isProduction_Part2_def uploadsDir_def
        vercel_host_def path_join_def)

lemma forEach_create_aborts:
  "forEach_create ops base dirs d = (Some msg, d') \<Longrightarrow>
   \<exists>pre dir post d''. dirs = pre @ dir # post
      \<and> forEach_create ops base pre d = (None, d'')
      \<and> \<not> existsSync ops (files d'') (path_join base dir)
      \<and> mkdirSync ops (files d'') (path_join base dir) = (Some msg, files d')
      \<and> mkdir_calls d' = mkdir_calls d'' @ [path_join base dir]
      \<and> logged d' = logged d''"
proof (induction dirs arbitrary: d)
  case Nil
  then show ?case by simp
next
  case (Cons dir dirs)
  let ?p = "path_join base dir"
  show ?case
  proof (cases "existsSync ops (files d) ?p")
    case True
    then have "forEach_create ops base dirs d = (Some msg, d')"
      using Cons.prems by (simp add: Let_def)
    from Cons.IH [OF this] obtain pre x post d'' where
      "dirs = pre @ x # post" "forEach_create ops base pre d = (None, d'')"
      "\<not> existsSync ops (files d'') (path_join base x)"
      "mkdirSync ops (files d'') (path_join base x) = (Some msg, files d')"
      "mkdir_calls d' = mkdir_calls d'' @ [path_join base x]" "logged d' = logged d''"
      by blast
    then show ?thesis
      using True by (intro exI [of _ "dir # pre"] exI [of _ x] exI [of _ post] exI [of _ d''])
        (simp add: Let_def)
  next
    case False
    obtain res fs' where mk: "mkdirSync ops (files d) ?p = (res, fs')"
      by (cases "mkdirSync ops (files d) ?p") auto
    show ?thesis
    proof (cases res)
      case None
      let ?d1 = "d\<lparr>files := fs', logged := logged d @ [Created ?p], mkdir_calls := mkdir_calls d @ [?p]\<rparr>"
      have "forEach_create ops base dirs ?d1 = (Some msg, d')"
        using Cons.prems False mk None by (simp add: Let_def)
      from Cons.IH [OF this] obtain pre x post d'' where
        "dirs = pre @ x # post" "forEach_create ops base pre ?d1 = (None, d'')"
        "\<not> existsSync ops (files d'') (path_join base x)"
        "mkdirSync ops (files d'') (path_join base x) = (Some msg, files d')"
        "mkdir_calls d' = mkdir_calls d'' @ [path_join base x]" "logged d' = logged d''"
        by blast
      then show ?thesis
        using False mk None
        by (intro exI [of _ "dir # pre"] exI [of _ x] exI [of _ post] exI [of _ d''])
          (simp add: Let_def)
    next
      case (Some m)
      then have "d' = d\<lparr>files := fs', mkdir_calls := mkdir_calls d @ [?p]\<rparr>" "m = msg"
        using Cons.prems False mk by (simp_all add: Let_def)
      then show ?thesis
        using False mk Some
        by (intro exI [of _ "[]"] exI [of _ dir] exI [of _ dirs] exI [of _ d]) simp
    qed
  qed
qed

lemma forEach_create_append:
  "forEach_create ops base (pre @ post) d =
     (case forEach_create ops base pre d of
        (None, d'') \<Rightarrow> forEach_create ops base post d''
      | (Some m, d'') \<Rightarrow> (Some m, d''))"
  by (induction pre arbitrary: d) (auto simp: Let_def split: prod.splits option.splits)

text \<open>
  Claim C5 (storage areas), as amended. Initialization never raises in any revision: both
  functions return a state for every file system. In \<open>Srv2\<close> the three areas are handled one
  after the other, each on the state the previous one left, whatever happened there: an
  area that is there only gets a console line; an absent one is attempted with
  \<^verbatim>\<open>mkdirSync\<close>, and the attempt is logged as created or, with its message, as failed. In
  \<^verbatim>\<open>createDirectories\<close> of \<open>Srv3\<close> and \<open>Part2\<close> an area that is there is passed over and a
  created one is logged, but a failing \<^verbatim>\<open>mkdirSync\<close> ends the loop: whatever areas follow
  are not looked at, and the function logs one warning. Conversely, a loop that ended with
  an exception stopped at the first failing area, with the areas before it done.
\<close>

theorem storage_areas:
  "ensure_dirs_Srv2 ops h env d =
     ensure_dir ops (dirPath_Srv2 h env ''logs'')
       (ensure_dir ops (dirPath_Srv2 h env ''whatsapp-auth'')
         (ensure_dir ops (dirPath_Srv2 h env ''uploads'') d))
   \<and> (existsSync ops (files d) p \<longrightarrow>
        ensure_dir ops p d = d\<lparr>logged := logged d @ [Directory_exists p]\<rparr>)
   \<and> (\<not> existsSync ops (files d) p \<and> mkdirSync ops (files d) p = (None, fs') \<longrightarrow>
        ensure_dir ops p d =
          d\<lparr>files := fs', logged := logged d @ [Created p], mkdir_calls := mkdir_calls d @ [p]\<rparr>)
   \<and> (\<not> existsSync ops (files d) p \<and> mkdirSync ops (files d) p = (Some msg, fs') \<longrightarrow>
        ensure_dir ops p d =
          d\<lparr>files := fs', logged := logged d @ [Could_not_create_directory p msg],
            mkdir_calls := mkdir_calls d @ [p]\<rparr>)
   \<and> createDirectories isProduction ops h d =
       (case forEach_create ops (if isProduction then ''/tmp'' else dirname h)
               [''uploads'', ''whatsapp-auth'', ''logs''] d of
          (None, d') \<Rightarrow> d'
        | (Some msg, d') \<Rightarrow> d'\<lparr>logged := logged d' @ [Could_not_create_directories msg]\<rparr>)
   \<and> forEach_create ops base [] d = (None, d)
   \<and> (existsSync ops (files d) (path_join base dir) \<longrightarrow>
        forEach_create ops base (dir # dirs) d = forEach_create ops base dirs d)
   \<and> (\<not> existsSync ops (files d) (path_join base dir)
        \<and> mkdirSync ops (files d) (path_join base dir) = (None, fs') \<longrightarrow>
        forEach_create ops base (dir # dirs) d =
          forEach_create ops base dirs
            (d\<lparr>files := fs', logged := logged d @ [Created (path_join base dir)],
               mkdir_calls := mkdir_calls d @ [path_join base dir]\<rparr>))
   \<and> (\<not> existsSync ops (files d) (path_join base dir)
        \<and> mkdirSync ops (files d) (path_join base dir) = (Some msg, fs') \<longrightarrow>
        forEach_create ops base (dir # dirs) d =
          (Some msg, d\<lparr>files := fs', mkdir_calls := mkdir_calls d @ [path_join base dir]\<rparr>))
   \<and> (forEach_create ops base pre d = (None, d'')
        \<and> \<not> existsSync ops (files d'') (path_join base dir)
        \<and> mkdirSync ops (files d'') (path_join base dir) = (Some msg, fs') \<longrightarrow>
        forEach_create ops base (pre @ dir # post) d =
          (Some msg, d''\<lparr>files := fs', mkdir_calls := mkdir_calls d'' @ [path_join base dir]\<rparr>))
   \<and> (forEach_create ops base dirs d = (Some msg, d') \<longrightarrow>
        (\<exists>pre dir post d''. dirs = pre @ dir # post
            \<and> forEach_create ops base pre d = (None, d'')
            \<and> \<not> existsSync ops (files d'') (path_join base dir)
            \<and> mkdirSync ops (files d'') (path_join base dir) = (Some msg, files d')
            \<and> mkdir_calls d' = mkdir_calls d'' @ [path_join base dir]
            \<and> logged d' = logged d''))"
proof (intro conjI impI)
  show "ensure_dirs_Srv2 ops h env d =
     ensure_dir ops (dirPath_Srv2 h env ''logs'')
       (ensure_dir ops (dirPath_Srv2 h env ''whatsapp-auth'')
         (ensure_dir ops (dirPath_Srv2 h env ''uploads'') d))"
    by (simp add: ensure_dirs_Srv2_def requiredDirs_def)
next
  assume "existsSync ops (files d) p"
  then show "ensure_dir ops p d = d\<lparr>logged := logged d @ [Directory_exists p]\<rparr>"
    by (simp add: ensure_dir_def)
next
  assume "\<not> existsSync ops (files d) p \<and> mkdirSync ops (files d) p = (None, fs')"
  then show "ensure_dir ops p d =
          d\<lparr>files := fs', logged := logged d @ [Created p], mkdir_calls := mkdir_calls d @ [p]\<rparr>"
    by (simp add: ensure_dir_def)
next
  assume "\<not> existsSync ops (files d) p \<and> mkdirSync ops (files d) p = (Some msg, fs')"
  then show "ensure_dir ops p d =
          d\<lparr>files := fs', logged := logged d @ [Could_not_create_directory p msg],
            mkdir_calls := mkdir_calls d @ [p]\<rparr>"
    by (simp add: ensure_dir_def)
next
  show "createDirectories isProduction ops h d =
       (case forEach_create ops (if isProduction then ''/tmp'' else dirname h)
               [''uploads'', ''whatsapp-auth'', ''logs''] d of
          (None, d') \<Rightarrow> d'
        | (Some msg, d') \<Rightarrow> d'\<lparr>logged := logged d' @ [Could_not_create_directories msg]\<rparr>)"
    by (simp only: createDirectories_def requiredDirs_def Let_def)
next
  show "forEach_create ops base [] d = (None, d)" by simp
next
  assume "existsSync ops (files d) (path_join base dir)"
  then show "forEach_create ops base (dir # dirs) d = forEach_create ops base dirs d"
    by (simp add: Let_def)
next
  assume "\<not> existsSync ops (files d) (path_join base dir)
        \<and> mkdirSync ops (files d) (path_join base dir) = (None, fs')"
  then show "forEach_create ops base (dir # dirs) d =
          forEach_create ops base dirs
            (d\<lparr>files := fs', logged := logged d @ [Created (path_join base dir)],
               mkdir_calls := mkdir_calls d @ [path_join base dir]\<rparr>)"
    by (simp add: Let_def)
next
  assume "\<not> existsSync ops (files d) (path_join base dir)
        \<and> mkdirSync ops (files d) (path_join base dir) = (Some msg, fs')"
  then show "forEach_create ops base (dir # dirs) d =
          (Some msg, d\<lparr>files := fs', mkdir_calls := mkdir_calls d @ [path_join base dir]\<rparr>)"
    by (simp add: Let_def)
next
  assume "forEach_create ops base pre d = (None, d'')
        \<and> \<not> existsSync ops (files d'') (path_join base dir)
        \<and> mkdirSync ops (files d'') (path_join base dir) = (Some msg, fs')"
  then show "forEach_create ops base (pre @ dir # post) d =
          (Some msg, d''\<lparr>files := fs', mkdir_calls := mkdir_calls d'' @ [path_join base dir]\<rparr>)"
    by (simp add: forEach_create_append Let_def)
next
  assume "forEach_create ops base dirs d = (Some msg, d')"
  then show "\<exists>pre dir post d''. dirs = pre @ dir # post
            \<and> forEach_create ops base pre d = (None, d'')
            \<and> \<not> existsSync ops (files d'') (path_join base dir)
            \<and> mkdirSync ops (files d'') (path_join base dir) = (Some msg, files d')
            \<and> mkdir_calls d' = mkdir_calls d'' @ [path_join base dir]
            \<and> logged d' = logged d''"
    by (rule forEach_create_aborts)
qed

theorem storage_areas_witness:
  "ensure_dir uploads_blocked ''/tmp/uploads'' uploads_present
     = uploads_present\<lparr>logged := logged uploads_present @ [Directory_exists ''/tmp/uploads'']\<rparr>
   \<and> ensure_dir uploads_blocked ''/tmp/logs'' empty_disk
     = empty_disk\<lparr>files := [''/tmp/logs''], logged := logged empty_disk @ [Created ''/tmp/logs''],
         mkdir_calls := mkdir_calls empty_disk @ [''/tmp/logs'']\<rparr>
   \<and> ensure_dir uploads_blocked ''/tmp/uploads'' empty_disk
     = empty_disk\<lparr>files := [],
         logged := logged empty_disk
                   @ [Could_not_create_directory ''/tmp/uploads'' ''EACCES: permission denied''],
         mkdir_calls := mkdir_calls empty_disk @ [''/tmp/uploads'']\<rparr>
   \<and> forEach_create uploads_blocked ''/tmp'' [''uploads'', ''whatsapp-auth'', ''logs''] uploads_present
     = forEach_create uploads_blocked ''/tmp'' [''whatsapp-auth'', ''logs''] uploads_present
   \<and> forEach_create uploads_blocked ''/tmp'' [''logs''] empty_disk
     = forEach_create uploads_blocked ''/tmp'' []
         (empty_disk\<lparr>files := [''/tmp/logs''],
            logged := logged empty_disk @ [Created (path_join ''/tmp'' ''logs'')],
            mkdir_calls := mkdir_calls empty_disk @ [path_join ''/tmp'' ''logs'']\<rparr>)
   \<and> forEach_create uploads_blocked ''/tmp'' [''uploads'', ''whatsapp-auth'', ''logs''] empty_disk
     = (Some ''EACCES: permission denied'',
        empty_disk\<lparr>files := [], mkdir_calls := mkdir_calls empty_disk @ [path_join ''/tmp'' ''uploads'']\<rparr>)
   \<and> forEach_create uploads_blocked ''/tmp'' ([] @ ''uploads'' # [''whatsapp-auth'', ''logs'']) empty_disk
     = (Some ''EACCES: permission denied'',
        empty_disk\<lparr>files := [], mkdir_calls := mkdir_calls empty_disk @ [path_join ''/tmp'' ''uploads'']\<rparr>)
   \<and> (\<exists>pre dir post d''. [''uploads'', ''whatsapp-auth'', ''logs''] = pre @ dir # post
          \<and> forEach_create uploads_blocked ''/tmp'' pre empty_disk = (None, d'')
          \<and> \<not> existsSync uploads_blocked (files d'') (path_join ''/tmp'' dir))
   \<and> createDirectories True uploads_blocked vercel_host empty_disk
     = \<lparr>files = [], logged = [Could_not_create_directories ''EACCES: permission denied''],
        mkdir_calls = [''/tmp/uploads'']\<rparr>
   \<and> ensure_dirs_Srv2 uploads_blocked vercel_host
       (env_of [(''UPLOAD_DIR'', ''/tmp''), (''VERCEL'', ''1'')]) empty_disk
     = \<lparr>files = [''/tmp/whatsapp-auth'', ''/tmp/logs''],
        logged = [Could_not_create_directory ''/tmp/uploads'' ''EACCES: permission denied'',
                  Created ''/tmp/whatsapp-auth'', Created ''/tmp/logs''],
        mkdir_calls = [''/tmp/uploads'', ''/tmp/whatsapp-auth'', ''/tmp/logs'']\<rparr>"
proof -
  note sa = storage_areas [where ops = uploads_blocked and h = vercel_host]
  have join: "path_join ''/tmp'' ''uploads'' = ''/tmp/uploads''"
    "path_join ''/tmp'' ''logs'' = ''/tmp/logs''"
    by (simp_all add: path_join_def)
  have present: "existsSync uploads_blocked (files uploads_present) ''/tmp/uploads''"
    by (simp add: uploads_blocked_def uploads_present_def)
  have present': "existsSync uploads_blocked (files uploads_present) (path_join ''/tmp'' ''uploads'')"
    unfolding join by (rule present)
  have logs: "\<not> existsSync uploads_blocked (files empty_disk) ''/tmp/logs''
      \<and> mkdirSync uploads_blocked (files empty_disk) ''/tmp/logs'' = (None, [''/tmp/logs''])"
    by (simp add: uploads_blocked_def empty_disk_def)
  have logs': "\<not> existsSync uploads_blocked (files empty_disk) (path_join ''/tmp'' ''logs'')
      \<and> mkdirSync uploads_blocked (files empty_disk) (path_join ''/tmp'' ''logs'') = (None, [''/tmp/logs''])"
    unfolding join by (rule logs)
  have blocked: "\<not> existsSync uploads_blocked (files empty_disk) ''/tmp/uploads''
      \<and> mkdirSync uploads_blocked (files empty_disk) ''/tmp/uploads''
          = (Some ''EACCES: permission denied'', [])"
    by (simp add: uploads_blocked_def empty_disk_def)
  have blocked': "\<not> existsSync uploads_blocked (files empty_disk) (path_join ''/tmp'' ''uploads'')
      \<and> mkdirSync uploads_blocked (files empty_disk) (path_join ''/tmp'' ''uploads'')
          = (Some ''EACCES: permission denied'', [])"
    unfolding join by (rule blocked)
  have w1: "ensure_dir uploads_blocked ''/tmp/uploads'' uploads_present
     = uploads_present\<lparr>logged := logged uploads_present @ [Directory_exists ''/tmp/uploads'']\<rparr>"
    using sa [where d = uploads_present and p = "''/tmp/uploads''"] present by blast
  have w2: "ensure_dir uploads_blocked ''/tmp/logs'' empty_disk
     = empty_disk\<lparr>files := [''/tmp/logs''], logged := logged empty_disk @ [Created ''/tmp/logs''],
         mkdir_calls := mkdir_calls empty_disk @ [''/tmp/logs'']\<rparr>"
    using sa [where d = empty_disk and p = "''/tmp/logs''" and fs' = "[''/tmp/logs'']"] logs by blast
  have w3: "ensure_dir uploads_blocked ''/tmp/uploads'' empty_disk
     = empty_disk\<lparr>files := [],
         logged := logged empty_disk
                   @ [Could_not_create_directory ''/tmp/uploads'' ''EACCES: permission denied''],
         mkdir_calls := mkdir_calls empty_disk @ [''/tmp/uploads'']\<rparr>"
    using sa [where d = empty_disk and p = "''/tmp/uploads''" and fs' = "[]"
        and msg = "''EACCES: permission denied''"] blocked by blast
  have w4: "forEach_create uploads_blocked ''/tmp'' [''uploads'', ''whatsapp-auth'', ''logs''] uploads_present
     = forEach_create uploads_blocked ''/tmp'' [''whatsapp-auth'', ''logs''] uploads_present"
    using sa [where d = uploads_present and base = "''/tmp''" and dir = "''uploads''"
        and dirs = "[''whatsapp-auth'', ''logs'']"] present' by blast
  have w5: "forEach_create uploads_blocked ''/tmp'' [''logs''] empty_disk
     = forEach_create uploads_blocked ''/tmp'' []
         (empty_disk\<lparr>files := [''/tmp/logs''],
            logged := logged empty_disk @ [Created (path_join ''/tmp'' ''logs'')],
            mkdir_calls := mkdir_calls empty_disk @ [path_join ''/tmp'' ''logs'']\<rparr>)"
    using sa [where d = empty_disk and base = "''/tmp''" and dir = "''logs''" and dirs = "[]"
        and fs' = "[''/tmp/logs'']"] logs' by blast
  have w6: "forEach_create uploads_blocked ''/tmp'' [''uploads'', ''whatsapp-auth'', ''logs''] empty_disk
     = (Some ''EACCES: permission denied'',
        empty_disk\<lparr>files := [], mkdir_calls := mkdir_calls empty_disk @ [path_join ''/tmp'' ''uploads'']\<rparr>)"
    using sa [where d = empty_disk and base = "''/tmp''" and dir = "''uploads''"
        and dirs = "[''whatsapp-auth'', ''logs'']" and fs' = "[]"
        and msg = "''EACCES: permission denied''"] blocked' by blast
  have pre: "forEach_create uploads_blocked ''/tmp'' [] empty_disk = (None, empty_disk)"
    using sa [where d = empty_disk and base = "''/tmp''"] by blast
  have w7: "forEach_create uploads_blocked ''/tmp'' ([] @ ''uploads'' # [''whatsapp-auth'', ''logs'']) empty_disk
     = (Some ''EACCES: permission denied'',
        empty_disk\<lparr>files := [], mkdir_calls := mkdir_calls empty_disk @ [path_join ''/tmp'' ''uploads'']\<rparr>)"
    using sa [where d = empty_disk and base = "''/tmp''" and pre = "[]" and d'' = empty_disk
        and dir = "''uploads''" and post = "[''whatsapp-auth'', ''logs'']" and fs' = "[]"
        and msg = "''EACCES: permission denied''"] pre blocked' by blast
  have w10: "\<exists>pre dir post d''. [''uploads'', ''whatsapp-auth'', ''logs''] = pre @ dir # post
          \<and> forEach_create uploads_blocked ''/tmp'' pre empty_disk = (None, d'')
          \<and> \<not> existsSync uploads_blocked (files d'') (path_join ''/tmp'' dir)"
  proof (intro exI conjI)
    show "[''uploads'', ''whatsapp-auth'', ''logs''] = [] @ ''uploads'' # [''whatsapp-auth'', ''logs'']"
      by simp
    show "forEach_create uploads_blocked ''/tmp'' [] empty_disk = (None, empty_disk)"
      by (rule pre)
    show "\<not> existsSync uploads_blocked (files empty_disk) (path_join ''/tmp'' ''uploads'')"
      using blocked' by (rule conjunct1)
  qed
  have cd: "createDirectories True uploads_blocked vercel_host empty_disk =
       (case forEach_create uploads_blocked (if True then ''/tmp'' else dirname vercel_host)
               [''uploads'', ''whatsapp-auth'', ''logs''] empty_disk of
          (None, d') \<Rightarrow> d'
        | (Some msg, d') \<Rightarrow> d'\<lparr>logged := logged d' @ [Could_not_create_directories msg]\<rparr>)"
    using sa [where d = empty_disk and isProduction = True] by blast
  have w8: "createDirectories True uploads_blocked vercel_host empty_disk
     = \<lparr>files = [], logged = [Could_not_create_directories ''EACCES: permission denied''],
        mkdir_calls = [''/tmp/uploads'']\<rparr>"
    by (simp only: cd if_True w6 join) (simp add: empty_disk_def)
  have w9: "ensure_dirs_Srv2 uploads_blocked vercel_host
       (env_of [(''UPLOAD_DIR'', ''/tmp''), (''VERCEL'', ''1'')]) empty_disk
     = \<lparr>files = [''/tmp/whatsapp-auth'', ''/tmp/logs''],
        logged = [Could_not_create_directory ''/tmp/uploads'' ''EACCES: permission denied'',
                  Created ''/tmp/whatsapp-auth'', Created ''/tmp/logs''],
        mkdir_calls = [''/tmp/uploads'', ''/tmp/whatsapp-auth'', ''/tmp/logs'']\<rparr>"
    by (simp add: ensure_dirs_Srv2_def requiredDirs_def ensure_dir_def dirPath_Srv2_def uploadBase_def
        isServerless_def truthy_def env_of_def vercel_host_def uploads_blocked_def empty_disk_def
        path_join_def)
  show ?thesis
    by (intro conjI w1 w2 w3 w4 w5 w6 w7 w10 w8 w9)
qed

text \<open>
  The claim as stated fails on \<^verbatim>\<open>createDirectories\<close>: on a file system where only
  \<^verbatim>\<open>/tmp/uploads\<close> cannot be created, the failure ends the loop, and \<^verbatim>\<open>/tmp/whatsapp-auth\<close> and
  \<^verbatim>\<open>/tmp/logs\<close> are never attempted although creating them would succeed.
\<close>

theorem one_failure_stops_loop:
  "createDirectories True uploads_blocked vercel_host empty_disk =
     \<lparr>files = [], logged = [Could_not_create_directories ''EACCES: permission denied''],
      mkdir_calls = [''/tmp/uploads'']\<rparr>
   \<and> fst (mkdirSync uploads_blocked [] ''/tmp/whatsapp-auth'') = None
   \<and> fst (mkdirSync uploads_blocked [] ''/tmp/logs'') = None"
  by (simp add: createDirectories_def requiredDirs_def uploads_blocked_def empty_disk_def path_join_def)

section \<open>CORS policy: properties\<close>


section \<open>Dispatch: properties\<close>

text \<open>General facts about the walk over a stack.\<close>

lemma foldl_step_Finished: "foldl (step req) (Finished r, tr, st) ls = (Finished r, tr, st)"
  by (induction ls) simp_all

lemma passing_layers:
  "\<forall>l\<in>set ls. invoked l None req \<longrightarrow> lfn l None req st = (Next, st) \<Longrightarrow>
   \<exists>tr'. foldl (step req) (Running None, tr, st) ls = (Running None, tr', st)"
  by (induction ls arbitrary: tr) auto

lemma error_skips:
  "\<forall>l\<in>set ls. \<not> invoked l (Some e) req \<Longrightarrow>
   foldl (step req) (Running (Some e), tr, st) ls = (Running (Some e), tr, st)"
  by (induction ls) auto

lemma step_trace:
  "\<exists>ext. trace_of (step req (f, tr, st) l) = tr @ ext \<and> set ext \<subseteq> {lname l}"
  by (cases f) (auto simp: trace_of_def split: prod.splits outcome.splits)

lemma trace_grows:
  "\<exists>ext. trace_of (foldl (step req) (f, tr, st) ls) = tr @ ext \<and> set ext \<subseteq> lname ` set ls"
proof (induction ls arbitrary: f tr st)
  case Nil
  then show ?case by (simp add: trace_of_def)
next
  case (Cons l ls)
  obtain f' tr' st' where s: "step req (f, tr, st) l = (f', tr', st')"
    by (cases "step req (f, tr, st) l") auto
  obtain e1 where e1: "tr' = tr @ e1" "set e1 \<subseteq> {lname l}"
    using step_trace [of req f tr st l] by (auto simp: s trace_of_def)
  obtain e2 where e2: "trace_of (foldl (step req) (f', tr', st') ls) = tr' @ e2" "set e2 \<subseteq> lname ` set ls"
    using Cons.IH by blast
  show ?case
    by (rule exI [of _ "e1 @ e2"]) (use e1 e2 in \<open>auto simp: s\<close>)
qed


lemma tail_result:
  "foldl (step req) (Running err, tr, st) ([not_found r, error_handler r c] @ after_error_handler r env c) =
     (case err of
        None \<Rightarrow> (Finished \<lparr>res_status = 404, res_body = not_found_body r req\<rparr>, tr @ [L_notfound], st)
      | Some e \<Rightarrow>
          if r = Srv1 then (Running (Some e), tr, st)
          else (Finished (error_response (toISOString_now c) e), tr @ [L_error], st))"
  by (cases r; cases err)
     (simp_all add: not_found_def error_handler_def gate_def invoked_def layer_match_def use_match_def
        foldl_step_Finished)

text \<open>The names of the layers of each section, and the layers that leave the state alone.\<close>

lemma before_routes_names:
  "lname ` set (before_routes r h env c) \<subseteq> {L_cors, L_json, L_urlencoded, L_static, L_logger, L_root}"
  by (cases r) (auto simp: parsers_def use_fn_def static_uploads_def logger_def root_Srv1_def get_route_def)






lemma routes_error: "\<forall>l\<in>set (routes c). \<not> invoked l (Some e) req"
  by (auto simp: routes_def mount_def use_fn_def invoked_def)

lemma get_routes_error: "\<forall>l\<in>set (get_routes r h env c). \<not> invoked l (Some e) req"
  by (cases r) (auto simp: health_def test_whatsapp_def root_Part2_def get_route_def invoked_def)

text \<open>The shape of every run: the layers before the fallback, then the tail.\<close>

lemma handle_split:
  assumes "P = before_routes r h env c @ routes c @ get_routes r h env c"
    and "T = [not_found r, error_handler r c] @ after_error_handler r env c"
  shows "handle r h env c req st = foldl (step req) (foldl (step req) (Running None, [], st) P) T"
  by (simp add: handle_def dispatch_def stack_def assms)




lemma after_routes_names:
  "lname ` set (get_routes r h env c @ [not_found r, error_handler r c] @ after_error_handler r env c)
     \<subseteq> {L_root, L_health, L_test_whatsapp, L_notfound, L_error, L_gate}"
  by (cases r)
     (auto simp: health_def test_whatsapp_def root_Part2_def get_route_def not_found_def
        error_handler_def gate_def)

lemma before_routes_no_mount: "L_mount m x \<notin> lname ` set (before_routes r h env c)"
  using before_routes_names [of r h env c] by blast

lemma after_routes_no_mount:
  "L_mount m x \<notin> lname ` set (get_routes r h env c @ [not_found r, error_handler r c]
                                 @ after_error_handler r env c)"
  using after_routes_names [of r h env c] by blast

text \<open>With an error pending, no router is called any more.\<close>

lemma error_after_routes:
  assumes "T = get_routes r h env c @ [not_found r, error_handler r c] @ after_error_handler r env c"
    and "\<forall>l\<in>set R. \<not> invoked l (Some e) req"
  shows "\<exists>ext. trace_of (foldl (step req) (Running (Some e), tr, st) (R @ T)) = tr @ ext
           \<and> (\<forall>m x. L_mount m x \<notin> set ext)"
proof -
  have "foldl (step req) (Running (Some e), tr, st) (R @ T) = foldl (step req) (Running (Some e), tr, st) T"
    by (simp only: foldl_append error_skips [OF assms(2)])
  moreover obtain ext where "trace_of (foldl (step req) (Running (Some e), tr, st) T) = tr @ ext"
    "set ext \<subseteq> lname ` set T"
    using trace_grows by blast
  moreover have "\<forall>m x. L_mount m x \<notin> lname ` set T"
    unfolding assms(1) using after_routes_no_mount by blast
  ultimately show ?thesis by auto
qed

lemma first_match:
  assumes "use_match ''/api/whatsapp'' (pathname (req_url req))"
  shows "\<exists>rest. map lname (filter (\<lambda>l. layer_match l req) (routes c))
            = L_mount ''/api/whatsapp'' WhatsappRoutes # rest"
  using assms by (simp add: routes_def mount_def use_fn_def layer_match_def)


text \<open>
  Claim C2 (readiness gate before dispatch), evaluated on \<open>Srv1\<close> and \<open>Part1\<close>, the two
  revisions that have the middleware: in a fresh process with no URI configured and an
  unreachable database, \<^verbatim>\<open>GET /api/customers\<close> is answered by the customers router; the
  readiness middleware is not called, no connection attempt is made and \<^verbatim>\<open>isConnected\<close> stays
  false. Had the middleware been called, it would have answered with status 500.
\<close>

theorem handlers_run_without_gate:
  "handle Srv1 vercel_host (env_of [])
      (declining\<lparr>customerRoutes := (\<lambda>m req. Respond (res_json (JArr []))),
                 mongoose_connect := (\<lambda>uri. Some unreachable)\<rparr>)
      (GET ''/api/customers'') fresh
     = (Finished (res_json (JArr [])),
        [L_cors, L_json, L_urlencoded, L_logger, L_mount ''/api/customers'' CustomerRoutes],
        \<lparr>isConnected = False, connect_calls = []\<rparr>)
   \<and> handle Part1 vercel_host (env_of [])
      (declining\<lparr>customerRoutes := (\<lambda>m req. Respond (res_json (JArr []))),
                 mongoose_connect := (\<lambda>uri. Some unreachable)\<rparr>)
      (GET ''/api/customers'') fresh
     = (Finished (res_json (JArr [])),
        [L_cors, L_json, L_urlencoded, L_logger, L_mount ''/api/customers'' CustomerRoutes],
        \<lparr>isConnected = False, connect_calls = []\<rparr>)
   \<and> gate_fn Srv1 (env_of [])
        (declining\<lparr>customerRoutes := (\<lambda>m req. Respond (res_json (JArr []))),
                   mongoose_connect := (\<lambda>uri. Some unreachable)\<rparr>) fresh
     = (Respond connection_failed, fresh)"
  by code_simp

text \<open>
  Claim C6 (routing precedence), as amended. For a path that is \<^verbatim>\<open>/api/whatsapp\<close> or continues
  it with \<^verbatim>\<open>/\<close> (in any letter case), the first mount of the route table that matches is
  the canonical \<^verbatim>\<open>/api/whatsapp\<close> one; and whenever a legacy \<^verbatim>\<open>/api\<close> router is called for
  such a request, the canonical router was called before every legacy one and passed the
  request on with \<^verbatim>\<open>next()\<close>. So a legacy mount is never reached when the canonical router
  answers or raises.
\<close>

theorem canonical_before_legacy:
  assumes m: "use_match ''/api/whatsapp'' (pathname (req_url req))"
  shows "(\<exists>rest. map lname (filter (\<lambda>l. layer_match l req) (routes c))
            = L_mount ''/api/whatsapp'' WhatsappRoutes # rest)
       \<and> (L_mount ''/api'' x \<in> set (trace_of (handle r h env c req st)) \<longrightarrow>
            whatsappRoutes c ''/api/whatsapp'' req = Next
            \<and> (\<exists>pre post. trace_of (handle r h env c req st)
                             = pre @ L_mount ''/api/whatsapp'' WhatsappRoutes # post
                           \<and> (\<forall>y. L_mount ''/api'' y \<notin> set pre)))"
proof (intro conjI impI)
  show "\<exists>rest. map lname (filter (\<lambda>l. layer_match l req) (routes c))
            = L_mount ''/api/whatsapp'' WhatsappRoutes # rest"
    by (rule first_match [OF m])
next
  assume legacy: "L_mount ''/api'' x \<in> set (trace_of (handle r h env c req st))"
  define A where "A = before_routes r h env c"
  define W where "W = mount ''/api/whatsapp'' WhatsappRoutes (whatsappRoutes c)"
  define R where "R = tl (routes c)"
  define T where "T = get_routes r h env c @ [not_found r, error_handler r c] @ after_error_handler r env c"
  have run: "handle r h env c req st
      = foldl (step req) (step req (foldl (step req) (Running None, [], st) A) W) (R @ T)"
    by (simp add: handle_def dispatch_def stack_def A_def W_def R_def T_def routes_def)
  have Rerr: "\<forall>l\<in>set R. \<not> invoked l (Some e) req" for e
    using routes_error [of c e req] by (simp add: R_def routes_def)
  obtain fA trA stA where A: "foldl (step req) (Running None, [], st) A = (fA, trA, stA)"
    by (cases "foldl (step req) (Running None, [], st) A") auto
  obtain extA where "trace_of (foldl (step req) (Running None, [], st) A) = [] @ extA"
    "set extA \<subseteq> lname ` set A"
    using trace_grows by blast
  then have "set trA \<subseteq> lname ` set A" by (simp add: A trace_of_def)
  then have trA: "L_mount m y \<notin> set trA" for m y
    using before_routes_no_mount [of m y r h env c] unfolding A_def by blast
  have Wname: "lname W = L_mount ''/api/whatsapp'' WhatsappRoutes"
    by (simp add: W_def mount_def use_fn_def)
  have Wfn: "lfn W None req s = (whatsappRoutes c ''/api/whatsapp'' req, s)" for s
    by (simp add: W_def mount_def use_fn_def)
  have Wnone: "invoked W None req"
    using m by (simp add: W_def mount_def use_fn_def invoked_def layer_match_def)
  have Werr: "\<not> invoked W (Some e) req" for e
    by (simp add: W_def mount_def use_fn_def invoked_def)
  have goal_if: "whatsappRoutes c ''/api/whatsapp'' req = Next
            \<and> (\<exists>pre post. trace_of (handle r h env c req st)
                             = pre @ L_mount ''/api/whatsapp'' WhatsappRoutes # post
                           \<and> (\<forall>y. L_mount ''/api'' y \<notin> set pre))"
  proof (cases fA)
    case (Finished resp)
    then have "trace_of (handle r h env c req st) = trA"
      by (simp add: run A foldl_step_Finished trace_of_def)
    then show ?thesis using legacy trA by simp
  next
    case (Running err)
    show ?thesis
    proof (cases err)
      case (Some e)
      then have "handle r h env c req st = foldl (step req) (Running (Some e), trA, stA) (R @ T)"
        using Werr by (simp add: run A Running)
      moreover obtain ext where
        "trace_of (foldl (step req) (Running (Some e), trA, stA) (R @ T)) = trA @ ext"
        "\<forall>m x. L_mount m x \<notin> set ext"
        using error_after_routes [OF T_def Rerr] by blast
      ultimately show ?thesis using legacy trA by auto
    next
      case None
      show ?thesis
      proof (cases "whatsappRoutes c ''/api/whatsapp'' req")
        case Next
        then have "handle r h env c req st
            = foldl (step req) (Running None, trA @ [L_mount ''/api/whatsapp'' WhatsappRoutes], stA) (R @ T)"
          using Wnone by (simp add: run A Running None Wfn Wname)
        moreover obtain ext where
          "trace_of (foldl (step req) (Running None, trA @ [L_mount ''/api/whatsapp'' WhatsappRoutes], stA) (R @ T))
             = (trA @ [L_mount ''/api/whatsapp'' WhatsappRoutes]) @ ext"
          using trace_grows by blast
        ultimately have "trace_of (handle r h env c req st)
            = trA @ L_mount ''/api/whatsapp'' WhatsappRoutes # ext"
          by simp
        then show ?thesis using Next trA by blast
      next
        case (Respond resp)
        then have "trace_of (handle r h env c req st) = trA @ [L_mount ''/api/whatsapp'' WhatsappRoutes]"
          using Wnone by (simp add: run A Running None Wfn Wname foldl_step_Finished trace_of_def)
        then show ?thesis using legacy trA by simp
      next
        case (Throw e)
        then have "handle r h env c req st
            = foldl (step req) (Running (Some e), trA @ [L_mount ''/api/whatsapp'' WhatsappRoutes], stA) (R @ T)"
          using Wnone by (simp add: run A Running None Wfn Wname)
        moreover obtain ext where
          "trace_of (foldl (step req) (Running (Some e), trA @ [L_mount ''/api/whatsapp'' WhatsappRoutes], stA) (R @ T))
             = (trA @ [L_mount ''/api/whatsapp'' WhatsappRoutes]) @ ext"
          "\<forall>m x. L_mount m x \<notin> set ext"
          using error_after_routes [OF T_def Rerr] by blast
        ultimately show ?thesis using legacy trA by auto
      qed
    qed
  qed
  from goal_if show "whatsappRoutes c ''/api/whatsapp'' req = Next" by blast
  from goal_if show "\<exists>pre post. trace_of (handle r h env c req st)
                             = pre @ L_mount ''/api/whatsapp'' WhatsappRoutes # post
                           \<and> (\<forall>y. L_mount ''/api'' y \<notin> set pre)" by blast
qed

theorem canonical_before_legacy_witness:
  "use_match ''/api/whatsapp'' (pathname (req_url (GET ''/api/whatsapp/unknown'')))
   \<and> L_mount ''/api'' CustomerRoutes
       \<in> set (trace_of (handle Srv1 vercel_host (env_of []) declining (GET ''/api/whatsapp/unknown'') fresh))
   \<and> whatsappRoutes declining ''/api/whatsapp'' (GET ''/api/whatsapp/unknown'') = Next"
proof -
  have m: "use_match ''/api/whatsapp'' (pathname (req_url (GET ''/api/whatsapp/unknown'')))"
    by code_simp
  have t: "L_mount ''/api'' CustomerRoutes
       \<in> set (trace_of (handle Srv1 vercel_host (env_of []) declining (GET ''/api/whatsapp/unknown'') fresh))"
    by code_simp
  from canonical_before_legacy [OF m, of declining CustomerRoutes Srv1 vercel_host "env_of []" fresh] m t
  show ?thesis by blast
qed

text \<open>
  The claim as stated fails when the canonical router has no route for the request: it
  passes the request on and the three legacy \<^verbatim>\<open>/api\<close> mounts match and are called, although
  the path starts with \<^verbatim>\<open>/api/whatsapp\<close>.
\<close>

theorem legacy_mounts_reached:
  "trace_of (handle Part2 vercel_host (env_of []) declining (GET ''/api/whatsapp/unknown'') fresh)
     = [L_cors, L_json, L_urlencoded, L_logger, L_mount ''/api/whatsapp'' WhatsappRoutes,
        L_mount ''/api'' CustomerRoutes, L_mount ''/api'' AttendanceRoutes,
        L_mount ''/api'' ReportRoutes, L_notfound]
   \<and> prefix ''/api/whatsapp'' (req_url (GET ''/api/whatsapp/unknown''))"
  by code_simp

text \<open>
  What becomes of an error raised by the canonical WhatsApp router, when the earlier
  middleware passes the request on: \<open>Srv1\<close> leaves it to the final handler of Express, the
  other revisions answer through the global error handler.
\<close>

lemma error_response_403:
  "err_status e = Some 403 \<Longrightarrow> err_message e = Some msg \<Longrightarrow> msg \<noteq> [] \<Longrightarrow>
   error_response now e =
     \<lparr>res_status = 403,
      res_body = JObj [(''success'', JBool False), (''message'', JStr msg), (''timestamp'', JStr now)]\<rparr>"
  by (simp add: error_response_def)

lemma raised_error_outcome:
  assumes pass: "\<forall>l\<in>set (before_routes r h env c). invoked l None req \<longrightarrow> lfn l None req st = (Next, st)"
    and m: "use_match ''/api/whatsapp'' (pathname (req_url req))"
    and throw: "whatsappRoutes c ''/api/whatsapp'' req = Throw e"
  shows "flow_of (handle r h env c req st) =
           (if r = Srv1 then Running (Some e) else Finished (error_response (toISOString_now c) e))"
proof -
  define A where "A = before_routes r h env c"
  define W where "W = mount ''/api/whatsapp'' WhatsappRoutes (whatsappRoutes c)"
  define R where "R = tl (routes c) @ get_routes r h env c"
  define T where "T = [not_found r, error_handler r c] @ after_error_handler r env c"
  have run: "handle r h env c req st
      = foldl (step req) (foldl (step req) (step req (foldl (step req) (Running None, [], st) A) W) R) T"
    by (simp add: handle_def dispatch_def stack_def A_def W_def R_def T_def routes_def)
  obtain tr where A: "foldl (step req) (Running None, [], st) A = (Running None, tr, st)"
    using passing_layers [OF pass] unfolding A_def by blast
  have W: "step req (Running None, tr, st) W = (Running (Some e), tr @ [lname W], st)"
    using m throw by (simp add: W_def mount_def use_fn_def invoked_def layer_match_def)
  have "\<forall>l\<in>set R. \<not> invoked l (Some e) req"
    using routes_error [of c e req] get_routes_error [of r h env c e req]
    by (simp add: R_def routes_def ball_Un)
  then have R: "foldl (step req) (Running (Some e), tr @ [lname W], st) R = (Running (Some e), tr @ [lname W], st)"
    by (rule error_skips)
  have T: "foldl (step req) (Running (Some e), tr @ [lname W], st) T =
      (if r = Srv1 then (Running (Some e), tr @ [lname W], st)
       else (Finished (error_response (toISOString_now c) e), (tr @ [lname W]) @ [L_error], st))"
    unfolding T_def by (simp only: tail_result option.case)
  show ?thesis
    by (simp only: run A W R T flow_of_def) simp
qed

text \<open>
  Claim C7 (uniform error shape), evaluated on \<open>Srv1\<close>: the function registered as global
  error handler declares three parameters, so Express never calls it with an error. An
  error with status 403 raised by a router stays pending to the end of the stack and is
  left to the final handler of Express; no layer named \<open>L_error\<close> is called and the
  response is not built by \<open>error_response\<close>. On \<open>Part2\<close> the same request is answered with
  status 403 and the body \<^verbatim>\<open>{success: false, message, timestamp}\<close>.
\<close>

theorem error_handler_of_three_parameters:
  "handle Srv1 vercel_host (env_of []) (declining\<lparr>whatsappRoutes := (\<lambda>m req. Throw forbidden)\<rparr>)
      (GET ''/api/whatsapp/status'') fresh
     = (Running (Some forbidden),
        [L_cors, L_json, L_urlencoded, L_logger, L_mount ''/api/whatsapp'' WhatsappRoutes], fresh)
   \<and> larity (error_handler Srv1 declining) = 3
   \<and> handle Part2 vercel_host (env_of []) (declining\<lparr>whatsappRoutes := (\<lambda>m req. Throw forbidden)\<rparr>)
      (GET ''/api/whatsapp/status'') fresh
     = (Finished \<lparr>res_status = 403,
          res_body = JObj [(''success'', JBool False), (''message'', JStr ''Forbidden''),
                           (''timestamp'', JStr ''2025-01-01T00:00:00.000Z'')]\<rparr>,
        [L_cors, L_json, L_urlencoded, L_logger, L_mount ''/api/whatsapp'' WhatsappRoutes, L_error],
        fresh)"
  by code_simp

text \<open>
  Claim C8 (not-found fallback), as amended. When every layer registered before the
  fallback either is not called for the request or passes it on, the response has status
  404 and a body with \<^verbatim>\<open>success: false\<close>; the body has an \<^verbatim>\<open>availableRoutes\<close> array containing
  \<^verbatim>\<open>/health\<close> in every revision but \<open>Srv1\<close>, where it has no such field.
\<close>

theorem unmatched_request:
  assumes "\<forall>l\<in>set (before_routes r h env c @ routes c @ get_routes r h env c).
             invoked l None req \<longrightarrow> lfn l None req st = (Next, st)"
  shows "flow_of (handle r h env c req st) =
           Finished \<lparr>res_status = 404, res_body = not_found_body r req\<rparr>
         \<and> json_field ''success'' (not_found_body r req) = Some (JBool False)
         \<and> (r = Srv1 \<longrightarrow> json_field ''availableRoutes'' (not_found_body r req) = None)
         \<and> (r \<noteq> Srv1 \<longrightarrow>
              (\<exists>rs. json_field ''availableRoutes'' (not_found_body r req) = Some (JArr rs)
                    \<and> JStr ''/health'' \<in> set rs))"
proof -
  define P where "P = before_routes r h env c @ routes c @ get_routes r h env c"
  define T where "T = [not_found r, error_handler r c] @ after_error_handler r env c"
  note hs = handle_split [OF P_def T_def]
  obtain tr' where P: "foldl (step req) (Running None, [], st) P = (Running None, tr', st)"
    using passing_layers [OF assms] unfolding P_def by blast
  have "foldl (step req) (Running None, tr', st) T =
      (Finished \<lparr>res_status = 404, res_body = not_found_body r req\<rparr>, tr' @ [L_notfound], st)"
    unfolding T_def by (simp only: tail_result option.case)
  then have "flow_of (handle r h env c req st) =
           Finished \<lparr>res_status = 404, res_body = not_found_body r req\<rparr>"
    by (simp add: hs P flow_of_def)
  moreover have "json_field ''success'' (not_found_body r req) = Some (JBool False)"
    by (cases r) simp_all
  moreover have "r = Srv1 \<longrightarrow> json_field ''availableRoutes'' (not_found_body r req) = None"
    by simp
  moreover have "r \<noteq> Srv1 \<longrightarrow>
              (\<exists>rs. json_field ''availableRoutes'' (not_found_body r req) = Some (JArr rs)
                    \<and> JStr ''/health'' \<in> set rs)"
    by (cases r) simp_all
  ultimately show ?thesis by blast
qed

theorem unmatched_request_witness:
  "flow_of (handle Part2 vercel_host (env_of []) declining (GET ''/api/unknown-thing'') fresh) =
     Finished \<lparr>res_status = 404, res_body = not_found_body Part2 (GET ''/api/unknown-thing'')\<rparr>
   \<and> json_field ''availableRoutes'' (not_found_body Part2 (GET ''/api/unknown-thing'')) =
       Some (JArr [JStr ''/'', JStr ''/health'', JStr ''/test-whatsapp'', JStr ''/api/whatsapp/status'',
         JStr ''/api/customers'', JStr ''/api/attendance'', JStr ''/api/reports''])"
proof -
  have a: "\<forall>l\<in>set (before_routes Part2 vercel_host (env_of []) declining @ routes declining
              @ get_routes Part2 vercel_host (env_of []) declining).
             invoked l None (GET ''/api/unknown-thing'') \<longrightarrow>
             lfn l None (GET ''/api/unknown-thing'') fresh = (Next, fresh)"
    by code_simp
  have b: "json_field ''availableRoutes'' (not_found_body Part2 (GET ''/api/unknown-thing'')) =
       Some (JArr [JStr ''/'', JStr ''/health'', JStr ''/test-whatsapp'', JStr ''/api/whatsapp/status'',
         JStr ''/api/customers'', JStr ''/api/attendance'', JStr ''/api/reports''])"
    by simp
  from unmatched_request [OF a] b show ?thesis by blast
qed

text \<open>
  The claim as stated fails on \<open>Srv1\<close>: the body of its 404 response consists of \<^verbatim>\<open>success\<close>
  and \<^verbatim>\<open>message\<close> only.
\<close>

theorem fallback_without_routes:
  "flow_of (handle Srv1 vercel_host (env_of []) declining (GET ''/api/unknown-thing'') fresh) =
     Finished \<lparr>res_status = 404,
       res_body = JObj [(''success'', JBool False),
                        (''message'', JStr ''Route GET /api/unknown-thing not found'')]\<rparr>"
  by code_simp

section \<open>Connection acquisition within the stack\<close>










end
